theory Spec2Isabelle
  imports Main "HOL-Library.Sublist"
begin

section \<open>Values\<close>

text \<open>
  Go strings and byte slices are sequences of bytes; a string is a \<open>string\<close> (a list of
  8-bit characters). A \<open>[]byte\<close> may also be the nil slice, which testify's \<open>Equal\<close>
  tells apart from an empty one: it is a \<open>string option\<close>, \<open>None\<close> being nil.
  An \<open>error\<close> result is an \<open>error option\<close>, \<open>None\<close> being nil.
\<close>

type_synonym bytes = "string option"

type_synonym error = string

text \<open>
  The two ways the program can abort: the runtime's panic on a nil pointer, and the
  explicit \<open>panic(msg)\<close> of handleCookies.
\<close>

datatype panic = NilPointerDereference | PanicMsg string

section \<open>The standard library, as far as the program uses it\<close>

subsection \<open>strings\<close>

text \<open>\<open>strings.Index(s, sep)\<close>: the index of the first occurrence of sep in s, or -1.\<close>

fun strings_Index :: "string \<Rightarrow> string \<Rightarrow> int" where
  "strings_Index [] sep = (if sep = [] then 0 else - 1)"
| "strings_Index (c # s) sep =
     (if prefix sep (c # s) then 0
      else (let i = strings_Index s sep in if i < 0 then - 1 else i + 1))"

subsection \<open>net/http headers\<close>

text \<open>\<open>http.Header\<close> is \<open>map[string][]string\<close>.\<close>

type_synonym http_Header = "string \<rightharpoonup> string list"

text \<open>
  \<open>textproto.CanonicalMIMEHeaderKey\<close>: a key made of header-field bytes only (RFC 7230
  token characters) gets its first letter and every letter after a hyphen in upper case
  and the others in lower case; any other key is returned as it is.
\<close>

definition validHeaderFieldByte :: "char \<Rightarrow> bool" where
  "validHeaderFieldByte c =
     (let n = (of_char c :: nat) in
        (48 \<le> n \<and> n \<le> 57) \<or> (65 \<le> n \<and> n \<le> 90) \<or> (97 \<le> n \<and> n \<le> 122) \<or>
        n \<in> set [33, 35, 36, 37, 38, 39, 42, 43, 45, 46, 94, 95, 96, 124, 126])"

fun canonicalMIMEHeaderKey :: "bool \<Rightarrow> string \<Rightarrow> string" where
  "canonicalMIMEHeaderKey upper [] = []"
| "canonicalMIMEHeaderKey upper (c # a) =
     (let n = (of_char c :: nat);
          c' = (if upper \<and> 97 \<le> n \<and> n \<le> 122 then char_of (n - 32)
                else if \<not> upper \<and> 65 \<le> n \<and> n \<le> 90 then char_of (n + 32)
                else c)
      in c' # canonicalMIMEHeaderKey (c' = CHR ''-'') a)"

definition CanonicalMIMEHeaderKey :: "string \<Rightarrow> string" where
  "CanonicalMIMEHeaderKey s =
     (if list_all validHeaderFieldByte s then canonicalMIMEHeaderKey True s else s)"

text \<open>\<open>Header.Set\<close> replaces the values of the canonical key by the single value.\<close>

definition Header_Set :: "http_Header \<Rightarrow> string \<Rightarrow> string \<Rightarrow> http_Header" where
  "Header_Set h key val = h(CanonicalMIMEHeaderKey key \<mapsto> [val])"

text \<open>\<open>Header.Get\<close>: the first value of the canonical key, \<open>""\<close> when there is none.\<close>

definition Header_Get :: "http_Header \<Rightarrow> string \<Rightarrow> string" where
  "Header_Get h key =
     (case h (CanonicalMIMEHeaderKey key) of
        None \<Rightarrow> []
      | Some [] \<Rightarrow> []
      | Some (v # _) \<Rightarrow> v)"

subsection \<open>Requests, recorders, responses\<close>

text \<open>
  \<open>http.Request\<close>, the fields the program touches. The header map is allocated, as in
  every request \<open>http.NewRequest\<close> makes; a request built as a struct literal, whose
  header map is nil and on which \<open>Header.Set\<close> panics, is not among the values of this
  type. The body is a stream: \<open>None\<close> is no body, \<open>Some bs\<close> a stream whose unread
  bytes are \<open>bs\<close>.
\<close>

record Request =
  Method :: string
  URL :: string
  req_Header :: http_Header
  req_Body :: "string option"

text \<open>
  What an \<open>httptest.ResponseRecorder\<close> holds once the handler has returned: the status
  code (200 unless the handler wrote another), the header map and the body buffer.
\<close>

record ResponseRecorder =
  Code :: int
  HeaderMap :: http_Header
  rec_Body :: string

text \<open>
  \<open>ReadCloser\<close> wraps a reader; in this program the reader is always the recorder's
  \<open>bytes.Buffer\<close>, whose state is its unread bytes.
\<close>

record ReadCloser =
  rd :: string

record Response =
  StatusCode :: int
  resp_Body :: ReadCloser
  resp_Header :: http_Header

definition NewReadCloser :: "string \<Rightarrow> ReadCloser" where
  "NewReadCloser buf = \<lparr>rd = buf\<rparr>"

text \<open>
  \<open>bytes.Buffer.Read(p)\<close> with \<open>len(p) = n\<close>: an empty buffer gives no byte and
  \<open>io.EOF\<close> (nil when \<open>n = 0\<close>); otherwise the first \<open>n\<close> unread bytes are
  copied out and consumed. The result is the bytes read, the error and the buffer left.
\<close>

definition bytes_Buffer_Read :: "string \<Rightarrow> nat \<Rightarrow> string \<times> error option \<times> string" where
  "bytes_Buffer_Read buf n =
     (if buf = [] then ([], if n = 0 then None else Some ''EOF'', buf)
      else (take n buf, None, drop n buf))"

definition Read :: "ReadCloser \<Rightarrow> nat \<Rightarrow> string \<times> error option \<times> ReadCloser" where
  "Read rc n =
     (case bytes_Buffer_Read (rd rc) n of (p, err, buf) \<Rightarrow> (p, err, rc\<lparr>rd := buf\<rparr>))"

definition Close :: "ReadCloser \<Rightarrow> error option" where
  "Close rc = None"

text \<open>
  \<open>ioutil.ReadAll\<close>: reads chunk after chunk (512 bytes here) until an error; \<open>io.EOF\<close>
  ends the loop and is not reported. The result is never the nil slice.
\<close>

function ReadAll_loop :: "ReadCloser \<Rightarrow> string \<Rightarrow> string \<times> error option \<times> ReadCloser" where
  "ReadAll_loop rc b =
     (case Read rc 512 of
        (p, Some e, rc') \<Rightarrow> (b @ p, if e = ''EOF'' then None else Some e, rc')
      | (p, None, rc') \<Rightarrow> ReadAll_loop rc' (b @ p))"
  by pat_completeness auto
termination
  by (relation "measure (\<lambda>(rc, b). length (rd rc))")
     (auto simp: Read_def bytes_Buffer_Read_def split: if_splits)

declare ReadAll_loop.simps [simp del]

definition ReadAll :: "ReadCloser \<Rightarrow> bytes \<times> error option \<times> ReadCloser" where
  "ReadAll rc = (case ReadAll_loop rc [] of (b, err, rc') \<Rightarrow> (Some b, err, rc'))"

subsection \<open>Cookies on a request\<close>

text \<open>
  \<open>Request.AddCookie\<close>: the sanitized \<open>name=value\<close> is appended to the request's
  \<open>Cookie\<close> header, after \<open>"; "\<close> when the header already has a value. The name
  loses its line breaks; the value loses the bytes a cookie value cannot hold and is
  quoted when it has a space or a comma.
\<close>

definition sanitizeCookieName :: "string \<Rightarrow> string" where
  "sanitizeCookieName n = map (\<lambda>c. if c = CHR 0x0A \<or> c = CHR 0x0D then CHR ''-'' else c) n"

definition validCookieValueByte :: "char \<Rightarrow> bool" where
  "validCookieValueByte b =
     (let n = (of_char b :: nat) in 32 \<le> n \<and> n < 127 \<and> n \<noteq> 34 \<and> n \<noteq> 59 \<and> n \<noteq> 92)"

definition sanitizeCookieValue :: "string \<Rightarrow> string" where
  "sanitizeCookieValue v =
     (let v' = filter validCookieValueByte v in
      if v' = [] then v'
      else if CHR '' '' \<in> set v' \<or> CHR '','' \<in> set v' then [CHR 0x22] @ v' @ [CHR 0x22]
      else v')"

definition AddCookie :: "Request \<Rightarrow> string \<Rightarrow> string \<Rightarrow> Request" where
  "AddCookie r name val =
     (let s = sanitizeCookieName name @ ''='' @ sanitizeCookieValue val;
          c = Header_Get (req_Header r) ''Cookie''
      in if c \<noteq> [] then r\<lparr>req_Header := Header_Set (req_Header r) ''Cookie'' (c @ ''; '' @ s)\<rparr>
         else r\<lparr>req_Header := Header_Set (req_Header r) ''Cookie'' s\<rparr>)"

subsection \<open>Parameters\<close>

text \<open>
  The library functions whose results the program only passes on are parameters:
  \<open>strings.ToUpper\<close>, \<open>http.NewRequest\<close> with a nil body (the request and the
  error it returns), and \<open>json.Marshal\<close> and \<open>xml.Marshal\<close> on the values of type
  \<open>'v\<close> the test passes (the bytes and the error they return).
\<close>

record 'v stdlib =
  strings_ToUpper :: "string \<Rightarrow> string"
  http_NewRequest :: "string \<Rightarrow> string \<Rightarrow> Request option \<times> error option"
  json_Marshal :: "'v \<Rightarrow> bytes \<times> error option"
  xml_Marshal :: "'v \<Rightarrow> bytes \<times> error option"

subsection \<open>testing.T and testify's assertions\<close>

text \<open>
  The test context is the list of the failures recorded so far, one entry per failed
  assertion. No assertion stops the test.
\<close>

type_synonym testing_T = "string list"

definition Errorf :: "testing_T \<Rightarrow> string \<Rightarrow> testing_T" where
  "Errorf tt msg = tt @ [msg]"

definition assert_NotNil :: "testing_T \<Rightarrow> 'a option \<Rightarrow> string \<Rightarrow> testing_T" where
  "assert_NotNil tt object msg = (if object \<noteq> None then tt else Errorf tt msg)"

definition assert_Nil :: "testing_T \<Rightarrow> 'a option \<Rightarrow> string \<Rightarrow> testing_T" where
  "assert_Nil tt object msg = (if object = None then tt else Errorf tt msg)"

definition assert_True :: "testing_T \<Rightarrow> bool \<Rightarrow> testing_T" where
  "assert_True tt val = (if val then tt else Errorf tt ''Should be true'')"

text \<open>\<open>Exactly\<close> on two values of one type, and \<open>Equal\<close> on two strings: equality.\<close>

definition assert_Exactly :: "testing_T \<Rightarrow> 'a \<Rightarrow> 'a \<Rightarrow> testing_T" where
  "assert_Exactly tt expected actual = (if expected = actual then tt else Errorf tt ''Not equal'')"

definition assert_Equal :: "testing_T \<Rightarrow> string \<Rightarrow> string \<Rightarrow> testing_T" where
  "assert_Equal tt expected actual = (if expected = actual then tt else Errorf tt ''Not equal'')"

text \<open>
  \<open>Equal\<close> on two byte slices: two nil slices are equal, a nil and a non-nil slice are
  not (even when the latter is empty), and two non-nil slices are compared byte by byte.
\<close>

definition assert_Equal_bytes :: "testing_T \<Rightarrow> bytes \<Rightarrow> bytes \<Rightarrow> testing_T" where
  "assert_Equal_bytes tt expected actual =
     (if (case expected of
            None \<Rightarrow> actual = None
          | Some e \<Rightarrow> (case actual of None \<Rightarrow> False | Some a \<Rightarrow> e = a))
      then tt else Errorf tt ''Not equal'')"

text \<open>\<open>string(b)\<close> of a byte slice; the nil slice gives the empty string.\<close>

definition string_of_bytes :: "bytes \<Rightarrow> string" where
  "string_of_bytes b = (case b of None \<Rightarrow> [] | Some s \<Rightarrow> s)"

section \<open>The Checker\<close>

text \<open>
  The struct \<open>Checker\<close>. The field \<open>t\<close> is \<open>testing_t\<close>. The handler is its
  \<open>ServeHTTP\<close>, as a function of the handler's own state and the request to what the
  recorder holds afterwards and the handler's next state; \<open>handler_state\<close> is the state
  the Go handler value carries with it. A nil pointer is \<open>None\<close>. The handler itself is
  taken to be present, to return, and to leave the request it is handed as it is: a nil
  handler (on which Check panics), a panic of the handler's own and what a handler does
  to the request are not part of the model.
\<close>

record 'h Checker =
  testing_t :: testing_T
  handler :: "'h \<Rightarrow> Request \<Rightarrow> ResponseRecorder \<times> 'h"
  handler_state :: 'h
  request :: "Request option"
  response :: "Response option"
  cookies :: "string \<rightharpoonup> string"

definition New :: "testing_T \<Rightarrow> ('h \<Rightarrow> Request \<Rightarrow> ResponseRecorder \<times> 'h) \<Rightarrow> 'h \<Rightarrow> 'h Checker" where
  "New tt h s =
     \<lparr>testing_t = tt, handler = h, handler_state = s,
      request = None, response = None, cookies = Map.empty\<rparr>"

subsection \<open>Making the request\<close>

definition TestRequest :: "Request option \<Rightarrow> 'h Checker \<Rightarrow> 'h Checker" where
  "TestRequest req c =
     c\<lparr>testing_t := assert_NotNil (testing_t c) req ''Request nil'', request := req\<rparr>"

definition Test :: "'v stdlib \<Rightarrow> string \<Rightarrow> string \<Rightarrow> 'h Checker \<Rightarrow> 'h Checker" where
  "Test L method path c =
     (case http_NewRequest L (strings_ToUpper L method) path of
        (req, err) \<Rightarrow>
          c\<lparr>testing_t := assert_Nil (testing_t c) err ''Failed to make new request'',
            request := req\<rparr>)"

subsection \<open>Headers, cookies, status\<close>

definition WithHeader :: "string \<Rightarrow> string \<Rightarrow> 'h Checker \<Rightarrow> panic + 'h Checker" where
  "WithHeader key val c =
     (case request c of
        None \<Rightarrow> Inl NilPointerDereference
      | Some req \<Rightarrow> Inr (c\<lparr>request := Some (req\<lparr>req_Header := Header_Set (req_Header req) key val\<rparr>)\<rparr>))"

definition HasHeader :: "string \<Rightarrow> string \<Rightarrow> 'h Checker \<Rightarrow> panic + 'h Checker" where
  "HasHeader key expectedValue c =
     (case response c of
        None \<Rightarrow> Inl NilPointerDereference
      | Some resp \<Rightarrow>
          (let val = Header_Get (resp_Header resp) key
           in Inr (c\<lparr>testing_t := assert_Exactly (testing_t c) expectedValue val\<rparr>)))"

definition HasCookie :: "string \<Rightarrow> string \<Rightarrow> 'h Checker \<Rightarrow> 'h Checker" where
  "HasCookie key expectedValue c =
     (case cookies c key of
        None \<Rightarrow> c\<lparr>testing_t := assert_True (testing_t c) False\<rparr>
      | Some val \<Rightarrow> c\<lparr>testing_t := assert_True (testing_t c) (expectedValue = val)\<rparr>)"

definition WithCookie :: "string \<Rightarrow> string \<Rightarrow> 'h Checker \<Rightarrow> panic + 'h Checker" where
  "WithCookie key val c =
     (case request c of
        None \<Rightarrow> Inl NilPointerDereference
      | Some req \<Rightarrow> Inr (c\<lparr>request := Some (AddCookie req key val)\<rparr>))"

definition HasStatus :: "int \<Rightarrow> 'h Checker \<Rightarrow> panic + 'h Checker" where
  "HasStatus status c =
     (case response c of
        None \<Rightarrow> Inl NilPointerDereference
      | Some resp \<Rightarrow> Inr (c\<lparr>testing_t := assert_Exactly (testing_t c) status (StatusCode resp)\<rparr>))"

subsection \<open>Bodies\<close>

text \<open>
  Modelled from the spec: \<open>newClosingBuffer\<close> and \<open>newClosingBufferString\<close> are not in
  the sources at hand. By the spec they give "a closable stream wrapping the given
  bytes/text": a stream whose unread bytes are the bytes given.
\<close>

definition newClosingBuffer :: "bytes \<Rightarrow> string option" where
  "newClosingBuffer body = Some (string_of_bytes body)"

definition newClosingBufferString :: "string \<Rightarrow> string option" where
  "newClosingBufferString body = Some body"

definition WithBody :: "bytes \<Rightarrow> 'h Checker \<Rightarrow> panic + 'h Checker" where
  "WithBody body c =
     (case request c of
        None \<Rightarrow> Inl NilPointerDereference
      | Some req \<Rightarrow> Inr (c\<lparr>request := Some (req\<lparr>req_Body := newClosingBuffer body\<rparr>)\<rparr>))"

definition HasBody :: "bytes \<Rightarrow> 'h Checker \<Rightarrow> panic + 'h Checker" where
  "HasBody body c =
     (case response c of
        None \<Rightarrow> Inl NilPointerDereference
      | Some resp \<Rightarrow>
          (case ReadAll (resp_Body resp) of
             (responseBody, err, rc) \<Rightarrow>
               (let t1 = assert_Nil (testing_t c) err ''Expected nil'';
                    t2 = assert_Equal_bytes t1 body responseBody
                in Inr (c\<lparr>testing_t := t2, response := Some (resp\<lparr>resp_Body := rc\<rparr>)\<rparr>))))"

definition WithString :: "string \<Rightarrow> 'h Checker \<Rightarrow> panic + 'h Checker" where
  "WithString body c =
     (case request c of
        None \<Rightarrow> Inl NilPointerDereference
      | Some req \<Rightarrow> Inr (c\<lparr>request := Some (req\<lparr>req_Body := newClosingBufferString body\<rparr>)\<rparr>))"

definition HasString :: "string \<Rightarrow> 'h Checker \<Rightarrow> panic + 'h Checker" where
  "HasString body c = HasBody (Some body) c"

subsection \<open>JSON and XML\<close>

definition WithJson :: "'v stdlib \<Rightarrow> 'v \<Rightarrow> 'h Checker \<Rightarrow> panic + 'h Checker" where
  "WithJson L val c =
     (case json_Marshal L val of
        (encoded, err) \<Rightarrow> WithBody encoded (c\<lparr>testing_t := assert_Nil (testing_t c) err ''Expected nil''\<rparr>))"

definition HasJson :: "'v stdlib \<Rightarrow> 'v \<Rightarrow> 'h Checker \<Rightarrow> panic + 'h Checker" where
  "HasJson L val c =
     (case response c of
        None \<Rightarrow> Inl NilPointerDereference
      | Some resp \<Rightarrow>
          (case ReadAll (resp_Body resp) of
             (body, err, rc) \<Rightarrow>
               (let t1 = assert_Nil (testing_t c) err ''Expected nil'' in
                (case json_Marshal L val of
                   (valueBytes, err') \<Rightarrow>
                     (let t2 = assert_Nil t1 err' ''Expected nil'';
                          t3 = assert_Equal t2 (string_of_bytes valueBytes) (string_of_bytes body)
                      in Inr (c\<lparr>testing_t := t3, response := Some (resp\<lparr>resp_Body := rc\<rparr>)\<rparr>))))))"

definition WithXml :: "'v stdlib \<Rightarrow> 'v \<Rightarrow> 'h Checker \<Rightarrow> panic + 'h Checker" where
  "WithXml L val c =
     (case xml_Marshal L val of
        (encoded, err) \<Rightarrow> WithBody encoded (c\<lparr>testing_t := assert_Nil (testing_t c) err ''Expected nil''\<rparr>))"

definition HasXml :: "'v stdlib \<Rightarrow> 'v \<Rightarrow> 'h Checker \<Rightarrow> panic + 'h Checker" where
  "HasXml L val c =
     (case response c of
        None \<Rightarrow> Inl NilPointerDereference
      | Some resp \<Rightarrow>
          (case ReadAll (resp_Body resp) of
             (body, err, rc) \<Rightarrow>
               (let t1 = assert_Nil (testing_t c) err ''Expected nil'' in
                (case xml_Marshal L val of
                   (valueBytes, err') \<Rightarrow>
                     (let t2 = assert_Nil t1 err' ''Expected nil'';
                          t3 = assert_Equal t2 (string_of_bytes valueBytes) (string_of_bytes body)
                      in Inr (c\<lparr>testing_t := t3, response := Some (resp\<lparr>resp_Body := rc\<rparr>)\<rparr>))))))"

subsection \<open>The cookie jar\<close>

text \<open>
  The loop of handleCookies over the values of \<open>Set-Cookie\<close>, on the jar. A value whose
  first \<open>=\<close> is not at a positive index panics; the values before it have been stored.
\<close>

fun handleCookies_range :: "(string \<rightharpoonup> string) \<Rightarrow> string list \<Rightarrow> panic + (string \<rightharpoonup> string)" where
  "handleCookies_range jar [] = Inr jar"
| "handleCookies_range jar (str # header) =
     (let ind = strings_Index str ''='' in
      if ind > 0
      then handleCookies_range (jar(take (nat ind) str \<mapsto> drop (nat (ind + 1)) str)) header
      else Inl (PanicMsg ''did not find = in cookie string''))"

definition handleCookies :: "(string \<rightharpoonup> string) \<Rightarrow> Response \<Rightarrow> panic + (string \<rightharpoonup> string)" where
  "handleCookies jar r =
     (case resp_Header r ''Set-Cookie'' of
        None \<Rightarrow> Inr jar
      | Some header \<Rightarrow> handleCookies_range jar header)"


fun generateCookieString_range :: "(string \<rightharpoonup> string) \<Rightarrow> string list \<Rightarrow> string \<Rightarrow> string" where
  "generateCookieString_range jar [] str = str"
| "generateCookieString_range jar (name # ks) str =
     (case jar name of
        None \<Rightarrow> generateCookieString_range jar ks str
      | Some val \<Rightarrow> generateCookieString_range jar ks (str @ name @ ''='' @ val @ '';''))"

definition generateCookieString :: "(string \<rightharpoonup> string) \<Rightarrow> string list \<Rightarrow> string" where
  "generateCookieString jar ks = generateCookieString_range jar ks []"

subsection \<open>Executing the request\<close>

text \<open>The request as \<open>ServeHTTP\<close> receives it: its \<open>Cookie\<close> header is set from the jar.\<close>

definition outgoing :: "string list \<Rightarrow> 'h Checker \<Rightarrow> Request \<Rightarrow> Request" where
  "outgoing ks c req =
     req\<lparr>req_Header := Header_Set (req_Header req) ''Cookie'' (generateCookieString (cookies c) ks)\<rparr>"

text \<open>The response built from the recorder after the handler has served a request.\<close>

definition recorded :: "ResponseRecorder \<Rightarrow> Response" where
  "recorded recorder =
     \<lparr>StatusCode = Code recorder,
      resp_Body = NewReadCloser (rec_Body recorder),
      resp_Header = HeaderMap recorder\<rparr>"

text \<open>
  Check with \<open>ks\<close> the order in which generateCookieString visits the jar. A panic ends
  the test process, so nothing of the Checker is kept then.
\<close>

definition Check :: "string list \<Rightarrow> 'h Checker \<Rightarrow> panic + 'h Checker" where
  "Check ks c =
     (case request c of
        None \<Rightarrow> Inl NilPointerDereference
      | Some req \<Rightarrow>
          (case handler c (handler_state c) (outgoing ks c req) of
             (recorder, s) \<Rightarrow>
               (let resp = recorded recorder in
                (case handleCookies (cookies c) resp of
                   Inl p \<Rightarrow> Inl p
                 | Inr jar \<Rightarrow>
                     Inr (c\<lparr>handler_state := s, request := Some (outgoing ks c req),
                            cookies := jar, response := Some resp\<rparr>)))))"

text \<open>
  \<open>Cb\<close> calls the callback with the response pointer, nil before the first execution.
  A nil callback cannot be called: the runtime panics. Otherwise the callback is the
  caller's code: given the response it is handed it panics itself, or it returns, having
  changed the response the pointer points to (when there is one) in some way.
\<close>

definition Cb :: "(Response option \<Rightarrow> panic + (Response \<Rightarrow> Response)) option \<Rightarrow> 'h Checker \<Rightarrow> panic + 'h Checker" where
  "Cb cb c =
     (case cb of
        None \<Rightarrow> Inl NilPointerDereference
      | Some f \<Rightarrow>
          (case f (response c) of
             Inl p \<Rightarrow> Inl p
           | Inr change \<Rightarrow> Inr (c\<lparr>response := map_option change (response c)\<rparr>)))"

section \<open>Sequences of calls\<close>

datatype 'v chain_call =
    CallTestRequest "Request option"
  | CallTest string string
  | CallWithHeader string string
  | CallHasHeader string string
  | CallHasCookie string string
  | CallWithCookie string string
  | CallHasStatus int
  | CallWithJson 'v
  | CallHasJson 'v
  | CallWithXml 'v
  | CallHasXml 'v
  | CallWithBody bytes
  | CallHasBody bytes
  | CallWithString string
  | CallHasString string
  | CallCheck "string list"
  | CallCb "(Response option \<Rightarrow> panic + (Response \<Rightarrow> Response)) option"

fun call :: "'v stdlib \<Rightarrow> 'v chain_call \<Rightarrow> 'h Checker \<Rightarrow> panic + 'h Checker" where
  "call L (CallTestRequest req) c = Inr (TestRequest req c)"
| "call L (CallTest method path) c = Inr (Test L method path c)"
| "call L (CallWithHeader key val) c = WithHeader key val c"
| "call L (CallHasHeader key val) c = HasHeader key val c"
| "call L (CallHasCookie key val) c = Inr (HasCookie key val c)"
| "call L (CallWithCookie key val) c = WithCookie key val c"
| "call L (CallHasStatus status) c = HasStatus status c"
| "call L (CallWithJson v) c = WithJson L v c"
| "call L (CallHasJson v) c = HasJson L v c"
| "call L (CallWithXml v) c = WithXml L v c"
| "call L (CallHasXml v) c = HasXml L v c"
| "call L (CallWithBody body) c = WithBody body c"
| "call L (CallHasBody body) c = HasBody body c"
| "call L (CallWithString body) c = WithString body c"
| "call L (CallHasString body) c = HasString body c"
| "call L (CallCheck ks) c = Check ks c"
| "call L (CallCb cb) c = Cb cb c"

text \<open>A chain of calls on one Checker; a panic ends it.\<close>

fun calls :: "'v stdlib \<Rightarrow> 'v chain_call list \<Rightarrow> 'h Checker \<Rightarrow> panic + 'h Checker" where
  "calls L [] c = Inr c"
| "calls L (x # xs) c = (case call L x c of Inl p \<Rightarrow> Inl p | Inr c' \<Rightarrow> calls L xs c')"

section \<open>Notions the properties are stated with\<close>

text \<open>The values of the \<open>Set-Cookie\<close> header of a response, none when it has no such header.\<close>

definition Set_Cookie_values :: "Response \<Rightarrow> string list" where
  "Set_Cookie_values r = (case resp_Header r ''Set-Cookie'' of None \<Rightarrow> [] | Some header \<Rightarrow> header)"

text \<open>A value handleCookies stores: its first \<open>=\<close> comes after a non-empty name.\<close>

definition storable :: "string \<Rightarrow> bool" where
  "storable str = (0 < strings_Index str ''='')"


text \<open>A response whose body has been read to its end.\<close>

definition drained :: "Response \<Rightarrow> Response" where
  "drained resp = resp\<lparr>resp_Body := (resp_Body resp)\<lparr>rd := []\<rparr>\<rparr>"

text \<open>The response an execution with the request \<open>req\<close> gets from the handler.\<close>

definition execution_response :: "string list \<Rightarrow> 'h Checker \<Rightarrow> Request \<Rightarrow> Response" where
  "execution_response ks c req = recorded (fst (handler c (handler_state c) (outgoing ks c req)))"

text \<open>
  The cookie named \<open>k\<close> as a list of \<open>Set-Cookie\<close> values sets it, read as the spec
  words it: a value is split at its first \<open>=\<close>, the part before is the name, the part
  after is the value, and of several values for one name the last one counts.
\<close>

fun cookie_name :: "string \<Rightarrow> string" where
  "cookie_name [] = []"
| "cookie_name (x # xs) = (if x = CHR ''='' then [] else x # cookie_name xs)"

fun cookie_value :: "string \<Rightarrow> string" where
  "cookie_value [] = []"
| "cookie_value (x # xs) = (if x = CHR ''='' then xs else cookie_value xs)"

fun last_set :: "string \<Rightarrow> string list \<Rightarrow> string option" where
  "last_set k [] = None"
| "last_set k (str # header) =
     (case last_set k header of
        Some v \<Rightarrow> Some v
      | None \<Rightarrow> if cookie_name str = k then Some (cookie_value str) else None)"



text \<open>A handler that echoes the body of the request, as the body of its response.\<close>

definition echoes_body :: "('h \<Rightarrow> Request \<Rightarrow> ResponseRecorder \<times> 'h) \<Rightarrow> bool" where
  "echoes_body h =
     (\<forall>s r. rec_Body (fst (h s r)) = (case req_Body r of None \<Rightarrow> [] | Some b \<Rightarrow> b))"

text \<open>A handler none of whose \<open>Set-Cookie\<close> values makes handleCookies panic.\<close>

definition cookies_storable :: "('h \<Rightarrow> Request \<Rightarrow> ResponseRecorder \<times> 'h) \<Rightarrow> bool" where
  "cookies_storable h = (\<forall>s r. list_all storable (Set_Cookie_values (recorded (fst (h s r)))))"

section \<open>Examples: a library, a request and handlers\<close>

text \<open>
  The library on the inputs of the examples: ASCII letters in upper case, a request made
  without error, and the encodings of a Go \<open>bool\<close>.
\<close>

definition example_request :: Request where
  "example_request = \<lparr>Method = ''GET'', URL = ''/ping'', req_Header = Map.empty, req_Body = None\<rparr>"

definition example_stdlib :: "bool stdlib" where
  "example_stdlib =
     \<lparr>strings_ToUpper =
        map (\<lambda>c. if 97 \<le> (of_char c :: nat) \<and> (of_char c :: nat) \<le> 122
                 then char_of ((of_char c :: nat) - 32) else c),
      http_NewRequest =
        (\<lambda>method path.
           (Some \<lparr>Method = method, URL = path, req_Header = Map.empty, req_Body = None\<rparr>, None)),
      json_Marshal = (\<lambda>b. (Some (if b then ''true'' else ''false''), None)),
      xml_Marshal =
        (\<lambda>b. (Some (if b then ''<bool>true</bool>'' else ''<bool>false</bool>''), None))\<rparr>"

text \<open>
  A handler that counts its calls. On its first call it issues the given \<open>Set-Cookie\<close>
  values, on later calls none; its body is always the \<open>Cookie\<close> header it received.
\<close>

definition first_call_sets :: "string list \<Rightarrow> nat \<Rightarrow> Request \<Rightarrow> ResponseRecorder \<times> nat" where
  "first_call_sets vals n r =
     (\<lparr>Code = 200,
       HeaderMap = (if n = 0 then [''Set-Cookie'' \<mapsto> vals] else Map.empty),
       rec_Body = Header_Get (req_Header r) ''Cookie''\<rparr>,
      n + 1)"

text \<open>A handler that answers 200 with the body of the request and no header.\<close>

definition echo_handler :: "unit \<Rightarrow> Request \<Rightarrow> ResponseRecorder \<times> unit" where
  "echo_handler u r =
     (\<lparr>Code = 200, HeaderMap = Map.empty,
       rec_Body = (case req_Body r of None \<Rightarrow> [] | Some b \<Rightarrow> b)\<rparr>,
      u)"

text \<open>A handler that answers \<open>GET /ping\<close>: 200, \<open>X-Test: ok\<close>, \<open>pong\<close>.\<close>

definition ping_handler :: "unit \<Rightarrow> Request \<Rightarrow> ResponseRecorder \<times> unit" where
  "ping_handler u r = (\<lparr>Code = 200, HeaderMap = [''X-Test'' \<mapsto> [''ok'']], rec_Body = ''pong''\<rparr>, u)"

section \<open>Facts about the library functions\<close>

lemma strings_Index_lower: "- 1 \<le> strings_Index s sep"
  by (induction s) (auto simp: Let_def)

lemma CanonicalMIMEHeaderKey_Cookie: "CanonicalMIMEHeaderKey ''Cookie'' = ''Cookie''"
  by (simp add: CanonicalMIMEHeaderKey_def validHeaderFieldByte_def Let_def)

lemma CanonicalMIMEHeaderKey_Set_Cookie: "CanonicalMIMEHeaderKey ''Set-Cookie'' = ''Set-Cookie''"
  by (simp add: CanonicalMIMEHeaderKey_def validHeaderFieldByte_def Let_def)

lemma CanonicalMIMEHeaderKey_X_Test: "CanonicalMIMEHeaderKey ''X-Test'' = ''X-Test''"
  by (simp add: CanonicalMIMEHeaderKey_def validHeaderFieldByte_def Let_def)

lemma ReadAll_loop_all: "ReadAll_loop rc b = (b @ rd rc, None, rc\<lparr>rd := []\<rparr>)"
proof (induction rc b rule: ReadAll_loop.induct)
  case (1 rc b)
  show ?case
  proof (cases "rd rc = []")
    case True
    then show ?thesis
      by (subst ReadAll_loop.simps) (simp add: Read_def bytes_Buffer_Read_def)
  next
    case False
    have r: "Read rc 512 = (take 512 (rd rc), None, rc\<lparr>rd := drop 512 (rd rc)\<rparr>)"
      using False by (simp add: Read_def bytes_Buffer_Read_def)
    show ?thesis
      by (subst ReadAll_loop.simps) (simp add: r "1.IH"[OF r[symmetric] refl])
  qed
qed

lemma ReadAll_all: "ReadAll rc = (Some (rd rc), None, rc\<lparr>rd := []\<rparr>)"
  by (simp add: ReadAll_def ReadAll_loop_all)

lemma strings_Index_nonneg_iff: "0 \<le> strings_Index s [c] \<longleftrightarrow> c \<in> set s"
  by (induction s) (auto simp: Let_def)

lemma strings_Index_name:
  "0 \<le> strings_Index s ''='' \<Longrightarrow> take (nat (strings_Index s ''='')) s = cookie_name s"
  by (induction s) (auto simp: Let_def nat_add_distrib split: if_splits)

lemma strings_Index_value:
  "0 \<le> strings_Index s ''='' \<Longrightarrow> drop (nat (strings_Index s ''='' + 1)) s = cookie_value s"
  by (induction s) (auto simp: Let_def nat_add_distrib split: if_splits)

lemma cookie_name_value:
  "CHR ''='' \<in> set s \<Longrightarrow> s = cookie_name s @ ''='' @ cookie_value s"
  by (induction s) auto

lemma cookie_name_no_eq: "CHR ''='' \<notin> set (cookie_name s)"
  by (induction s) auto

section \<open>Facts about the cookie jar\<close>

lemma handleCookies_range_Inl:
  "handleCookies_range jar header = Inl p \<Longrightarrow>
   p = PanicMsg ''did not find = in cookie string'' \<and> \<not> list_all storable header"
  by (induction header arbitrary: jar) (auto simp: Let_def storable_def split: if_splits)


lemma handleCookies_range_Inr:
  "list_all storable header \<Longrightarrow>
   \<exists>jar'. handleCookies_range jar header = Inr jar' \<and>
      (\<forall>k. jar' k = (case last_set k header of Some v \<Rightarrow> Some v | None \<Rightarrow> jar k))"
proof (induction header arbitrary: jar)
  case Nil
  then show ?case by simp
next
  case (Cons str header)
  then have st: "storable str" and rest: "list_all storable header"
    by simp_all
  from st have pos: "0 < strings_Index str ''=''"
    by (simp add: storable_def)
  let ?jar = "jar(cookie_name str \<mapsto> cookie_value str)"
  from Cons.IH[OF rest, of ?jar] obtain jar' where
    j: "handleCookies_range ?jar header = Inr jar'"
    and v: "\<And>k. jar' k = (case last_set k header of Some v \<Rightarrow> Some v | None \<Rightarrow> ?jar k)"
    by blast
  have "handleCookies_range jar (str # header) = Inr jar'"
    using pos j by (simp add: strings_Index_name strings_Index_value)
  moreover have "jar' k = (case last_set k (str # header) of Some v \<Rightarrow> Some v | None \<Rightarrow> jar k)" for k
    by (simp add: v split: option.splits)
  ultimately show ?case by blast
qed

lemma handleCookies_range_stores:
  assumes "storable str"
  shows "handleCookies_range jar [str] = Inr (jar(cookie_name str \<mapsto> cookie_value str)) \<and>
         str = cookie_name str @ ''='' @ cookie_value str \<and>
         CHR ''='' \<notin> set (cookie_name str)"
proof -
  from assms have pos: "0 < strings_Index str ''=''"
    by (simp add: storable_def)
  then have "CHR ''='' \<in> set str"
    using strings_Index_nonneg_iff [of str "CHR ''=''"] by simp
  then have "str = cookie_name str @ ''='' @ cookie_value str"
    by (rule cookie_name_value)
  moreover have "handleCookies_range jar [str] = Inr (jar(cookie_name str \<mapsto> cookie_value str))"
    using pos by (simp add: strings_Index_name strings_Index_value)
  ultimately show ?thesis
    using cookie_name_no_eq [of str] by simp
qed

lemma handleCookies_values: "handleCookies jar r = handleCookies_range jar (Set_Cookie_values r)"
  by (simp add: handleCookies_def Set_Cookie_values_def split: option.splits)

section \<open>A cookie with an empty name; builders without a request\<close>

text \<open>
  C6. Claimed: for every \<open>Set-Cookie\<close> value containing \<open>=\<close>, an execution stores the
  part before the first \<open>=\<close> as the name and the part after it as the value. The
  value \<open>=v\<close> contains \<open>=\<close>, at index 0; handleCookies tests \<open>ind > 0\<close>, so the
  execution that receives it stores nothing and panics, with the message that no \<open>=\<close>
  was found.
\<close>

theorem Check_empty_cookie_name_panics:
  "strings_Index ''=v'' ''='' = 0 \<and>
   Check [] (TestRequest (Some example_request) (New [] (first_call_sets [''=v'']) 0))
     = Inl (PanicMsg ''did not find = in cookie string'')"
  by (simp add: Check_def TestRequest_def New_def first_call_sets_def handleCookies_def
      recorded_def)

text \<open>
  C10. Every builder method but New, Test and TestRequest, and Check, dereferences the
  request: on a Checker whose request is nil, as that of a new Checker is, each of them
  panics on the nil pointer.
\<close>

theorem nil_request_panics:
  assumes "request c = None"
  shows "WithHeader key val c = Inl NilPointerDereference \<and>
         WithCookie key val c = Inl NilPointerDereference \<and>
         WithBody body c = Inl NilPointerDereference \<and>
         WithString str c = Inl NilPointerDereference \<and>
         WithJson L v c = Inl NilPointerDereference \<and>
         WithXml L v c = Inl NilPointerDereference \<and>
         Check ks c = Inl NilPointerDereference"
  using assms
  by (simp add: WithHeader_def WithCookie_def WithBody_def WithString_def WithJson_def
      WithXml_def Check_def split: prod.splits)

theorem nil_request_panics_witness:
  "request (New [] ping_handler ()) = None \<and>
   WithHeader ''a'' ''1'' (New [] ping_handler ()) = Inl NilPointerDereference \<and>
   WithCookie ''a'' ''1'' (New [] ping_handler ()) = Inl NilPointerDereference \<and>
   WithBody (Some ''x'') (New [] ping_handler ()) = Inl NilPointerDereference \<and>
   WithString ''x'' (New [] ping_handler ()) = Inl NilPointerDereference \<and>
   WithJson example_stdlib True (New [] ping_handler ()) = Inl NilPointerDereference \<and>
   WithXml example_stdlib True (New [] ping_handler ()) = Inl NilPointerDereference \<and>
   Check [] (New [] ping_handler ()) = Inl NilPointerDereference"
proof -
  have n: "request (New [] ping_handler ()) = None"
    by (simp add: New_def)
  show ?thesis
    using n nil_request_panics [OF n, of "''a''" "''1''" "Some ''x''" "''x''"
        example_stdlib True "[]"]
    by simp
qed

section \<open>Facts about the examples\<close>

lemma example_ToUpper_get: "strings_ToUpper example_stdlib ''get'' = ''GET''"
  by code_simp

lemma example_NewRequest:
  "http_NewRequest example_stdlib method path =
     (Some \<lparr>Method = method, URL = path, req_Header = Map.empty, req_Body = None\<rparr>, None)"
  by (simp add: example_stdlib_def)

lemma example_json_Marshal:
  "json_Marshal example_stdlib b = (Some (if b then ''true'' else ''false''), None)"
  by (simp add: example_stdlib_def)

lemma ping_checked:
  "calls example_stdlib [CallTest ''get'' ''/ping'', CallCheck []] (New [] ping_handler ()) =
   Inr \<lparr>testing_t = [], handler = ping_handler, handler_state = (),
        request = Some \<lparr>Method = ''GET'', URL = ''/ping'',
                         req_Header = [''Cookie'' \<mapsto> [[]]], req_Body = None\<rparr>,
        response = Some \<lparr>StatusCode = 200, resp_Body = \<lparr>rd = ''pong''\<rparr>,
                          resp_Header = [''X-Test'' \<mapsto> [''ok'']]\<rparr>,
        cookies = Map.empty\<rparr>"
  by (simp add: Test_def New_def example_ToUpper_get example_NewRequest Check_def outgoing_def
      Header_Set_def CanonicalMIMEHeaderKey_Cookie generateCookieString_def ping_handler_def
      recorded_def handleCookies_def NewReadCloser_def assert_Nil_def)

section \<open>TestRequest and HasHeader\<close>

text \<open>
  C8. Claimed: TestRequest with a nil request records a failure and leaves the request of
  the Checker as it was. It records the failure, and then assigns the nil request all the
  same: a Checker that had a request has none afterwards.
\<close>

theorem TestRequest_nil_replaces_request:
  "request (TestRequest (Some example_request) (New [] ping_handler ())) = Some example_request \<and>
   request (TestRequest None (TestRequest (Some example_request) (New [] ping_handler ()))) = None \<and>
   testing_t (TestRequest None (TestRequest (Some example_request) (New [] ping_handler ())))
     = [''Request nil'']"
  by (simp add: TestRequest_def New_def assert_NotNil_def Errorf_def)

text \<open>
  C8, as the code has it: TestRequest records the failure \<open>Request nil\<close> exactly when
  the request given is nil, and in both cases makes the request given the request of the
  Checker; nothing else changes.
\<close>

theorem TestRequest_always_replaces:
  "TestRequest req c =
     c\<lparr>testing_t := (if req = None then testing_t c @ [''Request nil''] else testing_t c),
       request := req\<rparr>"
  by (simp add: TestRequest_def assert_NotNil_def Errorf_def)

text \<open>
  C9. After an execution, HasHeader compares the expected value with \<open>Header.Get\<close> of the
  response header by equality of strings, recording one failure when they differ: that
  is the first value stored for the key (in its canonical form), and the empty string
  when the response has no value for it.
\<close>

theorem HasHeader_exact_match:
  assumes "response c = Some resp"
  shows "HasHeader key expectedValue c =
           Inr (c\<lparr>testing_t :=
                  (if expectedValue = Header_Get (resp_Header resp) key then testing_t c
                   else testing_t c @ [''Not equal''])\<rparr>) \<and>
         (resp_Header resp (CanonicalMIMEHeaderKey key) = None \<longrightarrow>
            Header_Get (resp_Header resp) key = []) \<and>
         (\<forall>v vs. resp_Header resp (CanonicalMIMEHeaderKey key) = Some (v # vs) \<longrightarrow>
            Header_Get (resp_Header resp) key = v)"
  using assms
  by (simp add: HasHeader_def assert_Exactly_def Errorf_def Header_Get_def)

theorem HasHeader_exact_match_witness:
  "\<exists>c resp. calls example_stdlib [CallTest ''get'' ''/ping'', CallCheck []] (New [] ping_handler ())
            = Inr c \<and> response c = Some resp \<and>
      HasHeader ''X-Test'' ''ok'' c = Inr c \<and>
      HasHeader ''X-Test'' ''OK'' c = Inr (c\<lparr>testing_t := [''Not equal'']\<rparr>) \<and>
      resp_Header resp (CanonicalMIMEHeaderKey ''X-Other'') = None \<and>
      HasHeader ''X-Other'' [] c = Inr c"
proof -
  let ?resp = "\<lparr>StatusCode = 200, resp_Body = \<lparr>rd = ''pong''\<rparr>,
                resp_Header = [''X-Test'' \<mapsto> [''ok'']]\<rparr>"
  let ?c = "\<lparr>testing_t = [], handler = ping_handler, handler_state = (),
        request = Some \<lparr>Method = ''GET'', URL = ''/ping'',
                         req_Header = [''Cookie'' \<mapsto> [[]]], req_Body = None\<rparr>,
        response = Some ?resp, cookies = Map.empty\<rparr>"
  have r: "response ?c = Some ?resp" by simp
  have k: "CanonicalMIMEHeaderKey ''X-Other'' = ''X-Other''"
    by (simp add: CanonicalMIMEHeaderKey_def validHeaderFieldByte_def Let_def)
  have "HasHeader ''X-Test'' ''ok'' ?c = Inr ?c"
    using HasHeader_exact_match [OF r, of "''X-Test''" "''ok''"]
    by (simp add: Header_Get_def CanonicalMIMEHeaderKey_X_Test)
  moreover have "HasHeader ''X-Test'' ''OK'' ?c = Inr (?c\<lparr>testing_t := [''Not equal'']\<rparr>)"
    using HasHeader_exact_match [OF r, of "''X-Test''" "''OK''"]
    by (simp add: Header_Get_def CanonicalMIMEHeaderKey_X_Test)
  moreover have "HasHeader ''X-Other'' [] ?c = Inr ?c"
    using HasHeader_exact_match [OF r, of "''X-Other''" "[]"]
    by (simp add: k)
  moreover have "resp_Header ?resp (CanonicalMIMEHeaderKey ''X-Other'') = None"
    by (simp add: k)
  ultimately show ?thesis
    using ping_checked r by blast
qed

section \<open>Facts about generateCookieString and Check\<close>










section \<open>Cookies added to the request\<close>

lemma sanitize_a: "sanitizeCookieName ''a'' = ''a''" 
  by (simp add: sanitizeCookieName_def)

lemma sanitize_1: "sanitizeCookieValue ''1'' = ''1''"
  by (simp add: sanitizeCookieValue_def validCookieValueByte_def Let_def)

lemma WithCookie_overwritten:
  assumes "request c = Some req"
  shows "\<exists>c1 req1. WithCookie key val c = Inr c1 \<and> request c1 = Some req1 \<and>
           req_Header (outgoing ks c1 req1) = req_Header (outgoing ks c req)"
  using assms
  by (simp add: WithCookie_def AddCookie_def outgoing_def Header_Set_def Let_def)

text \<open>
  C4. Claimed: a cookie added with WithCookie is in the request the handler receives at
  the next execution. WithCookie does put \<open>a=1\<close> into the \<open>Cookie\<close> header of the
  request; the execution then sets that header from the jar, here empty, so the handler
  (whose body repeats the \<open>Cookie\<close> header it received) receives no cookie at all.
\<close>

theorem WithCookie_lost_at_Check:
  "calls example_stdlib [CallTest ''get'' ''/ping'', CallWithCookie ''a'' ''1'']
      (New [] (first_call_sets []) 0) =
     Inr \<lparr>testing_t = [], handler = first_call_sets [], handler_state = 0,
          request = Some \<lparr>Method = ''GET'', URL = ''/ping'',
                           req_Header = [''Cookie'' \<mapsto> [''a=1'']], req_Body = None\<rparr>,
          response = None, cookies = Map.empty\<rparr> \<and>
   calls example_stdlib [CallTest ''get'' ''/ping'', CallWithCookie ''a'' ''1'', CallCheck []]
      (New [] (first_call_sets []) 0) =
     Inr \<lparr>testing_t = [], handler = first_call_sets [], handler_state = 1,
          request = Some \<lparr>Method = ''GET'', URL = ''/ping'',
                           req_Header = [''Cookie'' \<mapsto> [[]]], req_Body = None\<rparr>,
          response = Some \<lparr>StatusCode = 200, resp_Body = \<lparr>rd = []\<rparr>,
                            resp_Header = [''Set-Cookie'' \<mapsto> []]\<rparr>,
          cookies = Map.empty\<rparr>"
  by (simp add: Test_def New_def example_ToUpper_get example_NewRequest assert_Nil_def
      WithCookie_def AddCookie_def sanitize_a sanitize_1 Header_Get_def Header_Set_def
      CanonicalMIMEHeaderKey_Cookie Check_def outgoing_def generateCookieString_def
      first_call_sets_def recorded_def NewReadCloser_def handleCookies_def)

section \<open>Facts about the assertions\<close>

lemma HasBody_eq:
  assumes "response c = Some resp"
  shows "HasBody body c =
     Inr (c\<lparr>testing_t := (if body = Some (rd (resp_Body resp)) then testing_t c
                            else testing_t c @ [''Not equal'']),
            response := Some (drained resp)\<rparr>)"
  using assms
  by (auto simp: HasBody_def ReadAll_all assert_Nil_def assert_Equal_bytes_def Errorf_def
      drained_def split: option.splits)

lemma assert_Nil_None: "assert_Nil tt None msg = tt"
  by (simp add: assert_Nil_def)

lemma HasJson_eq:
  assumes "response c = Some resp"
  shows "HasJson L v c =
     Inr (c\<lparr>testing_t :=
              assert_Equal (assert_Nil (testing_t c) (snd (json_Marshal L v)) ''Expected nil'')
                (string_of_bytes (fst (json_Marshal L v))) (rd (resp_Body resp)),
            response := Some (drained resp)\<rparr>)"
  using assms
  by (simp add: HasJson_def ReadAll_all assert_Nil_None drained_def string_of_bytes_def
      Let_def case_prod_beta)

lemma HasXml_eq:
  assumes "response c = Some resp"
  shows "HasXml L v c =
     Inr (c\<lparr>testing_t :=
              assert_Equal (assert_Nil (testing_t c) (snd (xml_Marshal L v)) ''Expected nil'')
                (string_of_bytes (fst (xml_Marshal L v))) (rd (resp_Body resp)),
            response := Some (drained resp)\<rparr>)"
  using assms
  by (simp add: HasXml_def ReadAll_all assert_Nil_None drained_def string_of_bytes_def
      Let_def case_prod_beta)

lemma two_asserts_pass:
  "assert_Equal (assert_Nil tt err msg) expected actual = tt \<longleftrightarrow> err = None \<and> expected = actual"
  by (auto simp: assert_Equal_def assert_Nil_def Errorf_def)

lemma drained_drained: "drained (drained resp) = drained resp"
  by (simp add: drained_def)

lemma drained_fields:
  "StatusCode (drained resp) = StatusCode resp \<and> resp_Header (drained resp) = resp_Header resp \<and>
   rd (resp_Body (drained resp)) = []"
  by (simp add: drained_def)

lemma HasBody_twice:
  assumes "response c = Some resp"
  shows "\<exists>c1 c2. HasBody body c = Inr c1 \<and> response c1 = Some (drained resp) \<and>
           (testing_t c1 = testing_t c \<longleftrightarrow> body = Some (rd (resp_Body resp))) \<and>
           HasBody body c1 = Inr c2 \<and> response c2 = Some (drained resp) \<and>
           (testing_t c2 = testing_t c1 \<longleftrightarrow> body = Some [])"
proof -
  let ?c1 = "c\<lparr>testing_t := (if body = Some (rd (resp_Body resp)) then testing_t c
                            else testing_t c @ [''Not equal'']),
            response := Some (drained resp)\<rparr>"
  have 1: "HasBody body c = Inr ?c1"
    by (rule HasBody_eq [OF assms])
  have r1: "response ?c1 = Some (drained resp)" by simp
  let ?c2 = "?c1\<lparr>testing_t := (if body = Some (rd (resp_Body (drained resp))) then testing_t ?c1
                            else testing_t ?c1 @ [''Not equal'']),
            response := Some (drained (drained resp))\<rparr>"
  have 2: "HasBody body ?c1 = Inr ?c2"
    by (rule HasBody_eq [OF r1])
  have "testing_t ?c1 = testing_t c \<longleftrightarrow> body = Some (rd (resp_Body resp))" by simp
  moreover have "testing_t ?c2 = testing_t ?c1 \<longleftrightarrow> body = Some []"
    by (simp add: drained_fields)
  moreover have "response ?c2 = Some (drained resp)"
    by (simp add: drained_drained)
  ultimately show ?thesis using 1 2 r1 by blast
qed

lemma HasJson_twice:
  assumes "response c = Some resp"
  shows "\<exists>c1 c2. HasJson L v c = Inr c1 \<and> response c1 = Some (drained resp) \<and>
           (testing_t c1 = testing_t c \<longleftrightarrow>
              snd (json_Marshal L v) = None \<and>
              string_of_bytes (fst (json_Marshal L v)) = rd (resp_Body resp)) \<and>
           HasJson L v c1 = Inr c2 \<and> response c2 = Some (drained resp) \<and>
           (testing_t c2 = testing_t c1 \<longleftrightarrow>
              snd (json_Marshal L v) = None \<and> string_of_bytes (fst (json_Marshal L v)) = [])"
proof -
  let ?t1 = "assert_Equal (assert_Nil (testing_t c) (snd (json_Marshal L v)) ''Expected nil'')
                (string_of_bytes (fst (json_Marshal L v))) (rd (resp_Body resp))"
  let ?c1 = "c\<lparr>testing_t := ?t1, response := Some (drained resp)\<rparr>"
  have 1: "HasJson L v c = Inr ?c1"
    by (rule HasJson_eq [OF assms])
  have r1: "response ?c1 = Some (drained resp)" by simp
  let ?t2 = "assert_Equal (assert_Nil (testing_t ?c1) (snd (json_Marshal L v)) ''Expected nil'')
                (string_of_bytes (fst (json_Marshal L v))) (rd (resp_Body (drained resp)))"
  let ?c2 = "?c1\<lparr>testing_t := ?t2, response := Some (drained (drained resp))\<rparr>"
  have 2: "HasJson L v ?c1 = Inr ?c2"
    by (rule HasJson_eq [OF r1])
  have "testing_t ?c1 = testing_t c \<longleftrightarrow>
      snd (json_Marshal L v) = None \<and>
      string_of_bytes (fst (json_Marshal L v)) = rd (resp_Body resp)"
    by (simp add: two_asserts_pass)
  moreover have "testing_t ?c2 = testing_t ?c1 \<longleftrightarrow>
      snd (json_Marshal L v) = None \<and> string_of_bytes (fst (json_Marshal L v)) = []"
    by (simp add: two_asserts_pass drained_fields)
  moreover have "response ?c2 = Some (drained resp)"
    by (simp add: drained_drained)
  ultimately show ?thesis using 1 2 r1 by blast
qed

lemma HasXml_twice:
  assumes "response c = Some resp"
  shows "\<exists>c1 c2. HasXml L v c = Inr c1 \<and> response c1 = Some (drained resp) \<and>
           (testing_t c1 = testing_t c \<longleftrightarrow>
              snd (xml_Marshal L v) = None \<and>
              string_of_bytes (fst (xml_Marshal L v)) = rd (resp_Body resp)) \<and>
           HasXml L v c1 = Inr c2 \<and> response c2 = Some (drained resp) \<and>
           (testing_t c2 = testing_t c1 \<longleftrightarrow>
              snd (xml_Marshal L v) = None \<and> string_of_bytes (fst (xml_Marshal L v)) = [])"
proof -
  let ?t1 = "assert_Equal (assert_Nil (testing_t c) (snd (xml_Marshal L v)) ''Expected nil'')
                (string_of_bytes (fst (xml_Marshal L v))) (rd (resp_Body resp))"
  let ?c1 = "c\<lparr>testing_t := ?t1, response := Some (drained resp)\<rparr>"
  have 1: "HasXml L v c = Inr ?c1"
    by (rule HasXml_eq [OF assms])
  have r1: "response ?c1 = Some (drained resp)" by simp
  let ?t2 = "assert_Equal (assert_Nil (testing_t ?c1) (snd (xml_Marshal L v)) ''Expected nil'')
                (string_of_bytes (fst (xml_Marshal L v))) (rd (resp_Body (drained resp)))"
  let ?c2 = "?c1\<lparr>testing_t := ?t2, response := Some (drained (drained resp))\<rparr>"
  have 2: "HasXml L v ?c1 = Inr ?c2"
    by (rule HasXml_eq [OF r1])
  have "testing_t ?c1 = testing_t c \<longleftrightarrow>
      snd (xml_Marshal L v) = None \<and>
      string_of_bytes (fst (xml_Marshal L v)) = rd (resp_Body resp)"
    by (simp add: two_asserts_pass)
  moreover have "testing_t ?c2 = testing_t ?c1 \<longleftrightarrow>
      snd (xml_Marshal L v) = None \<and> string_of_bytes (fst (xml_Marshal L v)) = []"
    by (simp add: two_asserts_pass drained_fields)
  moreover have "response ?c2 = Some (drained resp)"
    by (simp add: drained_drained)
  ultimately show ?thesis using 1 2 r1 by blast
qed

lemma HasString_twice:
  assumes "response c = Some resp"
  shows "\<exists>c1 c2. HasString str c = Inr c1 \<and> response c1 = Some (drained resp) \<and>
           (testing_t c1 = testing_t c \<longleftrightarrow> str = rd (resp_Body resp)) \<and>
           HasString str c1 = Inr c2 \<and> response c2 = Some (drained resp) \<and>
           (testing_t c2 = testing_t c1 \<longleftrightarrow> str = [])"
  using HasBody_twice [OF assms, of "Some str"] by (simp add: HasString_def)

lemma header_status_keep_response:
  assumes "response c = Some resp"
  shows "(\<exists>c1. HasHeader key expectedValue c = Inr c1 \<and> response c1 = Some resp) \<and>
         (\<exists>c1. HasStatus status c = Inr c1 \<and> response c1 = Some resp) \<and>
         response (HasCookie key expectedValue c) = Some resp"
  using assms by (simp add: HasHeader_def HasStatus_def HasCookie_def split: option.splits)

text \<open>
  C5. Claimed: no assertion changes the stored response, so the same body assertion run
  twice in a row has the same outcome. The body of the response is a stream over the
  recorder's buffer, and a body assertion reads it to its end: against the body
  \<open>pong\<close>, \<open>HasString("pong")\<close> passes the first time and fails the second time.
\<close>

theorem HasString_twice_differs:
  "calls example_stdlib [CallTest ''get'' ''/ping'', CallCheck [], CallHasString ''pong'']
      (New [] ping_handler ()) =
     Inr \<lparr>testing_t = [], handler = ping_handler, handler_state = (),
          request = Some \<lparr>Method = ''GET'', URL = ''/ping'',
                           req_Header = [''Cookie'' \<mapsto> [[]]], req_Body = None\<rparr>,
          response = Some \<lparr>StatusCode = 200, resp_Body = \<lparr>rd = []\<rparr>,
                            resp_Header = [''X-Test'' \<mapsto> [''ok'']]\<rparr>,
          cookies = Map.empty\<rparr> \<and>
   calls example_stdlib
      [CallTest ''get'' ''/ping'', CallCheck [], CallHasString ''pong'', CallHasString ''pong'']
      (New [] ping_handler ()) =
     Inr \<lparr>testing_t = [''Not equal''], handler = ping_handler, handler_state = (),
          request = Some \<lparr>Method = ''GET'', URL = ''/ping'',
                           req_Header = [''Cookie'' \<mapsto> [[]]], req_Body = None\<rparr>,
          response = Some \<lparr>StatusCode = 200, resp_Body = \<lparr>rd = []\<rparr>,
                            resp_Header = [''X-Test'' \<mapsto> [''ok'']]\<rparr>,
          cookies = Map.empty\<rparr>"
  by (simp add: Test_def New_def example_ToUpper_get example_NewRequest Check_def outgoing_def
      Header_Set_def CanonicalMIMEHeaderKey_Cookie generateCookieString_def ping_handler_def
      recorded_def handleCookies_def NewReadCloser_def assert_Nil_def HasString_def HasBody_def
      ReadAll_all assert_Equal_bytes_def Errorf_def)

text \<open>
  C5, as the code has it. HasHeader, HasStatus and HasCookie leave the stored response as
  it is. HasBody, HasString, HasJson and HasXml leave its status code and header as they
  are and read its body to the end: the first run compares the expectation with the body
  of the response, and a second run, with the empty body that is left.
\<close>

theorem assertions_and_the_response:
  assumes "response c = Some resp"
  shows "(\<exists>c1. HasHeader key expectedValue c = Inr c1 \<and> response c1 = Some resp) \<and>
         (\<exists>c1. HasStatus status c = Inr c1 \<and> response c1 = Some resp) \<and>
         response (HasCookie key expectedValue c) = Some resp \<and>
         (StatusCode (drained resp) = StatusCode resp \<and>
          resp_Header (drained resp) = resp_Header resp \<and>
          rd (resp_Body (drained resp)) = []) \<and>
         (\<exists>c1 c2. HasBody body c = Inr c1 \<and> response c1 = Some (drained resp) \<and>
           (testing_t c1 = testing_t c \<longleftrightarrow> body = Some (rd (resp_Body resp))) \<and>
           HasBody body c1 = Inr c2 \<and> response c2 = Some (drained resp) \<and>
           (testing_t c2 = testing_t c1 \<longleftrightarrow> body = Some [])) \<and>
         (\<exists>c1 c2. HasString str c = Inr c1 \<and> response c1 = Some (drained resp) \<and>
           (testing_t c1 = testing_t c \<longleftrightarrow> str = rd (resp_Body resp)) \<and>
           HasString str c1 = Inr c2 \<and> response c2 = Some (drained resp) \<and>
           (testing_t c2 = testing_t c1 \<longleftrightarrow> str = [])) \<and>
         (\<exists>c1 c2. HasJson L v c = Inr c1 \<and> response c1 = Some (drained resp) \<and>
           (testing_t c1 = testing_t c \<longleftrightarrow>
              snd (json_Marshal L v) = None \<and>
              string_of_bytes (fst (json_Marshal L v)) = rd (resp_Body resp)) \<and>
           HasJson L v c1 = Inr c2 \<and> response c2 = Some (drained resp) \<and>
           (testing_t c2 = testing_t c1 \<longleftrightarrow>
              snd (json_Marshal L v) = None \<and> string_of_bytes (fst (json_Marshal L v)) = [])) \<and>
         (\<exists>c1 c2. HasXml L v c = Inr c1 \<and> response c1 = Some (drained resp) \<and>
           (testing_t c1 = testing_t c \<longleftrightarrow>
              snd (xml_Marshal L v) = None \<and>
              string_of_bytes (fst (xml_Marshal L v)) = rd (resp_Body resp)) \<and>
           HasXml L v c1 = Inr c2 \<and> response c2 = Some (drained resp) \<and>
           (testing_t c2 = testing_t c1 \<longleftrightarrow>
              snd (xml_Marshal L v) = None \<and> string_of_bytes (fst (xml_Marshal L v)) = []))"
  using header_status_keep_response [OF assms, of key expectedValue status]
    drained_fields [of resp] HasBody_twice [OF assms, of body] HasString_twice [OF assms, of str]
    HasJson_twice [OF assms, of L v] HasXml_twice [OF assms, of L v]
  by (intro conjI) blast+

theorem assertions_and_the_response_witness:
  "\<exists>c resp c1 c2.
     calls example_stdlib [CallTest ''get'' ''/ping'', CallCheck []] (New [] ping_handler ()) = Inr c \<and>
     response c = Some resp \<and> rd (resp_Body resp) = ''pong'' \<and>
     HasString ''pong'' c = Inr c1 \<and> testing_t c1 = testing_t c \<and>
     response c1 = Some (drained resp) \<and> rd (resp_Body (drained resp)) = [] \<and>
     HasString ''pong'' c1 = Inr c2 \<and> testing_t c2 \<noteq> testing_t c1"
proof -
  let ?resp = "\<lparr>StatusCode = 200, resp_Body = \<lparr>rd = ''pong''\<rparr>,
                resp_Header = [''X-Test'' \<mapsto> [''ok'']]\<rparr>"
  let ?c = "\<lparr>testing_t = [], handler = ping_handler, handler_state = (),
        request = Some \<lparr>Method = ''GET'', URL = ''/ping'',
                         req_Header = [''Cookie'' \<mapsto> [[]]], req_Body = None\<rparr>,
        response = Some ?resp, cookies = Map.empty\<rparr>"
  have r: "response ?c = Some ?resp" by simp
  have p: "rd (resp_Body ?resp) = ''pong''" by simp
  note t = assertions_and_the_response [OF r, of "''X-Test''" "''ok''" 200 "Some ''pong''"
      "''pong''" example_stdlib True]
  note s = t [THEN conjunct2, THEN conjunct2, THEN conjunct2, THEN conjunct2, THEN conjunct2,
      THEN conjunct1]
  from s obtain c1 c2 where
    a1: "HasString ''pong'' ?c = Inr c1" and a2: "response c1 = Some (drained ?resp)" and
    a3: "testing_t c1 = testing_t ?c \<longleftrightarrow> ''pong'' = rd (resp_Body ?resp)" and
    a4: "HasString ''pong'' c1 = Inr c2" and
    a5: "testing_t c2 = testing_t c1 \<longleftrightarrow> ''pong'' = []"
    by (elim exE conjE)
  from a3 have b3: "testing_t c1 = testing_t ?c" by simp
  from a5 have b5: "testing_t c2 \<noteq> testing_t c1" by simp
  have d: "rd (resp_Body (drained ?resp)) = []"
    by (simp add: drained_def)
  show ?thesis
    apply (rule exI [of _ ?c])
    apply (rule exI [of _ ?resp])
    apply (rule exI [of _ c1])
    apply (rule exI [of _ c2])
    apply (intro conjI)
            apply (rule ping_checked)
           apply (rule r)
          apply (rule p)
         apply (rule a1)
        apply (rule b3)
       apply (rule a2)
      apply (rule d)
     apply (rule a4)
    apply (rule b5)
    done
qed

section \<open>A request body sent and echoed\<close>

lemma Check_returns:
  assumes "request c = Some req"
    and "list_all storable (Set_Cookie_values (execution_response ks c req))"
  shows "\<exists>jar. handleCookies (cookies c) (execution_response ks c req) = Inr jar \<and>
           Check ks c =
             Inr (c\<lparr>handler_state := snd (handler c (handler_state c) (outgoing ks c req)),
                    request := Some (outgoing ks c req),
                    cookies := jar,
                    response := Some (execution_response ks c req)\<rparr>)"
proof -
  from handleCookies_range_Inr [OF assms(2), of "cookies c"] obtain jar where
    j: "handleCookies (cookies c) (execution_response ks c req) = Inr jar"
    by (auto simp: handleCookies_values)
  then have "Check ks c =
             Inr (c\<lparr>handler_state := snd (handler c (handler_state c) (outgoing ks c req)),
                    request := Some (outgoing ks c req),
                    cookies := jar,
                    response := Some (execution_response ks c req)\<rparr>)"
    using assms(1)
    by (simp add: Check_def execution_response_def Let_def case_prod_beta)
  with j show ?thesis by blast
qed

lemma WithJson_eq:
  assumes "request c = Some req"
  shows "WithJson L v c =
     Inr (c\<lparr>testing_t := assert_Nil (testing_t c) (snd (json_Marshal L v)) ''Expected nil'',
            request := Some (req\<lparr>req_Body := Some (string_of_bytes (fst (json_Marshal L v)))\<rparr>)\<rparr>)"
  using assms
  by (simp add: WithJson_def WithBody_def newClosingBuffer_def case_prod_beta)

lemma echo_handler_echoes: "echoes_body echo_handler"
  by (simp add: echoes_body_def echo_handler_def)

lemma echo_handler_storable: "cookies_storable echo_handler"
  by (simp add: cookies_storable_def echo_handler_def Set_Cookie_values_def recorded_def)

text \<open>
  C7. On a Checker with a request, let the value \<open>v\<close> have a JSON encoding (Marshal
  returns no error) that is the same when WithJson and when HasJson serialize it (the
  libraries \<open>L\<close> and \<open>L'\<close> are Marshal at these two moments), and let the handler
  echo the body of the request and issue no \<open>Set-Cookie\<close> value that makes
  handleCookies panic. Then WithJson, Check and HasJson all return, and no failure is
  recorded.
\<close>

theorem json_round_trip:
  assumes req: "request c = Some req"
    and enc: "snd (json_Marshal L v) = None"
    and stable: "json_Marshal L' v = json_Marshal L v"
    and echo: "echoes_body (handler c)"
    and cs: "cookies_storable (handler c)"
  shows "\<exists>c1 c2 c3. WithJson L v c = Inr c1 \<and> Check ks c1 = Inr c2 \<and>
           HasJson L' v c2 = Inr c3 \<and> testing_t c3 = testing_t c"
proof -
  let ?body = "string_of_bytes (fst (json_Marshal L v))"
  let ?req1 = "req\<lparr>req_Body := Some ?body\<rparr>"
  let ?c1 = "c\<lparr>testing_t := assert_Nil (testing_t c) (snd (json_Marshal L v)) ''Expected nil'',
            request := Some ?req1\<rparr>"
  have 1: "WithJson L v c = Inr ?c1"
    by (rule WithJson_eq [OF req])
  have t1: "testing_t ?c1 = testing_t c"
    by (simp add: enc assert_Nil_None)
  have r1: "request ?c1 = Some ?req1" by simp
  let ?resp = "execution_response ks ?c1 ?req1"
  have st: "list_all storable (Set_Cookie_values ?resp)"
    using cs by (simp add: cookies_storable_def execution_response_def)
  from Check_returns [OF r1 st] obtain jar where
    2: "Check ks ?c1 =
          Inr (?c1\<lparr>handler_state := snd (handler ?c1 (handler_state ?c1) (outgoing ks ?c1 ?req1)),
                    request := Some (outgoing ks ?c1 ?req1),
                    cookies := jar,
                    response := Some ?resp\<rparr>)" (is "_ = Inr ?c2")
    by blast
  have body: "rd (resp_Body ?resp) = ?body"
    using echo
    by (simp add: echoes_body_def execution_response_def recorded_def NewReadCloser_def
        outgoing_def)
  have r2: "response ?c2 = Some ?resp" by simp
  note 3 = HasJson_eq [OF r2, of L' v]
  let ?t3 = "assert_Equal (assert_Nil (testing_t ?c2) (snd (json_Marshal L' v)) ''Expected nil'')
          (string_of_bytes (fst (json_Marshal L' v))) (rd (resp_Body ?resp))"
  have e3: "?t3 = testing_t ?c2"
    unfolding two_asserts_pass stable by (rule conjI [OF enc body [symmetric]])
  have tc2: "testing_t ?c2 = testing_t ?c1" by simp
  have "testing_t (?c2\<lparr>testing_t := ?t3, response := Some (drained ?resp)\<rparr>) = ?t3"
    by simp
  also have "\<dots> = testing_t ?c2" by (rule e3)
  also have "\<dots> = testing_t ?c1" by (rule tc2)
  also have "\<dots> = testing_t c" by (rule t1)
  finally have t3: "testing_t (?c2\<lparr>testing_t := ?t3, response := Some (drained ?resp)\<rparr>)
      = testing_t c" .
  show ?thesis
    apply (rule exI, rule exI, rule exI)
    apply (intro conjI)
       apply (rule 1)
      apply (rule 2)
     apply (rule 3)
    apply (rule t3)
    done
qed

theorem json_round_trip_witness:
  "request (Test example_stdlib ''post'' ''/echo'' (New [] echo_handler ())) \<noteq> None \<and>
   snd (json_Marshal example_stdlib True) = None \<and>
   echoes_body (handler (Test example_stdlib ''post'' ''/echo'' (New [] echo_handler ()))) \<and>
   cookies_storable (handler (Test example_stdlib ''post'' ''/echo'' (New [] echo_handler ()))) \<and>
   (\<exists>c1 c2 c3.
      WithJson example_stdlib True (Test example_stdlib ''post'' ''/echo'' (New [] echo_handler ()))
        = Inr c1 \<and>
      Check [] c1 = Inr c2 \<and> HasJson example_stdlib True c2 = Inr c3 \<and> testing_t c3 = [])"
proof -
  let ?c = "Test example_stdlib ''post'' ''/echo'' (New [] echo_handler ())"
  let ?req = "\<lparr>Method = strings_ToUpper example_stdlib ''post'', URL = ''/echo'',
                req_Header = Map.empty, req_Body = None\<rparr>"
  have r: "request ?c = Some ?req"
    by (simp add: Test_def example_NewRequest)
  have t: "testing_t ?c = []"
    by (simp add: Test_def example_NewRequest New_def assert_Nil_None)
  have h: "handler ?c = echo_handler"
    by (simp add: Test_def example_NewRequest New_def)
  have e: "snd (json_Marshal example_stdlib True) = None"
    by (simp add: example_json_Marshal)
  have eh: "echoes_body (handler ?c)"
    by (simp add: h echo_handler_echoes)
  have sh: "cookies_storable (handler ?c)"
    by (simp add: h echo_handler_storable)
  note w = json_round_trip [OF r e refl eh sh, of "[]"]
  have "\<exists>c1 c2 c3. WithJson example_stdlib True ?c = Inr c1 \<and> Check [] c1 = Inr c2 \<and>
      HasJson example_stdlib True c2 = Inr c3 \<and> testing_t c3 = []"
    using w unfolding t .
  moreover have "request ?c \<noteq> None" using r by simp
  ultimately show ?thesis using e eh sh by (intro conjI)
qed

section \<open>Panics\<close>









section \<open>The jar over a chain of calls\<close>







section \<open>Panics and the jar at examples\<close>









end
